theory Spec2Isabelle
  imports Main "HOL-Library.Sublist" "HOL-Library.Word" "HOL-Library.AList"
begin

section \<open>Go errors\<close>

text \<open>
  A Go \<open>error\<close> value, as far as the package can observe it: a plain error with a message
  (\<open>errors.New\<close>), the sentinel \<open>os.ErrNotExist\<close>, and an error that wraps another one
  behind a prefix, \<open>fmt.Errorf(prefix + ": %w", err)\<close>.
\<close>

datatype error = New string | ErrNotExist | Errorf string error

text \<open>The method \<open>Error()\<close>: the message of an error.\<close>

fun Error :: "error \<Rightarrow> string" where
  "Error (New s) = s"
| "Error ErrNotExist = ''file does not exist''"
| "Error (Errorf p e) = p @ '': '' @ Error e"

text \<open>\<open>errors.Unwrap\<close>: the cause of a wrapping error.\<close>

fun Unwrap :: "error \<Rightarrow> error option" where
  "Unwrap (Errorf p e) = Some e"
| "Unwrap _ = None"

text \<open>\<open>errors.Is\<close>: the target is found somewhere along the chain of causes.\<close>

fun errors_Is :: "error \<Rightarrow> error \<Rightarrow> bool" where
  "errors_Is (Errorf p e) t = (Errorf p e = t \<or> errors_Is e t)"
| "errors_Is e t = (e = t)"

section \<open>Duration\<close>

text \<open>
  \<open>type Duration time.Duration\<close>: an \<open>int64\<close> count of nanoseconds. A method receiver
  \<open>d *Duration\<close> is a pointer: \<open>None\<close> is the nil pointer, \<open>Some x\<close> a pointer to a cell
  holding \<open>x\<close>. A call either returns or panics on a nil dereference.
\<close>

type_synonym Duration = "64 word"

datatype 'a exec = Return 'a | NilDereference

definition Duration :: "Duration option \<Rightarrow> 64 word" where
  "Duration d = (case d of None \<Rightarrow> 0 | Some x \<Rightarrow> x)"

text \<open>
  \<open>UnmarshalText\<close> returns the error and the receiver's cell after the call.
  \<open>time.ParseDuration\<close> belongs to the Go standard library and is a parameter.
\<close>

definition UnmarshalText ::
  "(string \<Rightarrow> error + 64 word) \<Rightarrow> Duration option \<Rightarrow> string \<Rightarrow> (error option \<times> Duration option) exec"
where
  "UnmarshalText ParseDuration d text =
     (case ParseDuration text of
        Inl err \<Rightarrow> Return (Some (Errorf ''can't parse duration'' err), d)
      | Inr t \<Rightarrow> (case d of None \<Rightarrow> NilDereference | Some _ \<Rightarrow> Return (None, Some t)))"

text \<open>A stand-in for \<open>time.ParseDuration\<close> on two texts, for closed examples.\<close>

definition example_ParseDuration :: "string \<Rightarrow> error + 64 word" where
  "example_ParseDuration s =
     (if s = ''1s'' then Inr 1000000000 else Inl (New (''time: invalid duration '' @ s)))"

section \<open>Configuration trees\<close>

text \<open>
  The values koanf keeps in its \<open>map[string]any\<close>: nil, booleans, numbers (carried by their
  literal), strings, slices and nested maps. A Go map is an association list read with
  \<open>map_of\<close>; the order of its entries carries no meaning.
\<close>

datatype val = VNull | VBool bool | VNum string | VStr string | VList "val list"
  | VMap "(string \<times> val) list"

type_synonym tree = "(string \<times> val) list"

fun is_map :: "val \<Rightarrow> bool" where
  "is_map (VMap m) = True"
| "is_map _ = False"

text \<open>The value at a key path (the path \<open>database.host\<close> is \<open>[''database'', ''host'']\<close>).\<close>

fun get :: "string list \<Rightarrow> val \<Rightarrow> val option" where
  "get [] v = Some v"
| "get (k # ks) (VMap m) = (case map_of m k of None \<Rightarrow> None | Some v' \<Rightarrow> get ks v')"
| "get (k # ks) _ = None"

text \<open>
  Modelled from the spec: the Merge Store of section 4.3, which the repository delegates to
  koanf (\<open>k.Load\<close> merges what a provider returned into \<open>k\<close>). \<open>merge a b\<close> ingests the
  partial tree \<open>a\<close> into the cumulative tree \<open>b\<close>: every key of \<open>a\<close> is set in \<open>b\<close>; where
  both hold a map the two maps merge key by key, otherwise the value of \<open>a\<close> replaces the
  value of \<open>b\<close> wholesale; keys of \<open>b\<close> that \<open>a\<close> does not have stay.
\<close>

function merge :: "tree \<Rightarrow> tree \<Rightarrow> tree" where
  "merge a b =
     map (\<lambda>(k, v). (k, case v of
                         VMap m \<Rightarrow> (case map_of b k of Some (VMap m') \<Rightarrow> VMap (merge m m') | _ \<Rightarrow> v)
                       | _ \<Rightarrow> v)) a
     @ filter (\<lambda>(k, w). map_of a k = None) b"
  by pat_completeness auto
termination
proof -
  have sub: "size_list (size_prod (\<lambda>_. 0) size) m < size_list (size_prod (\<lambda>_. 0) size) a"
    if "(k, VMap m) \<in> set a" for k m and a :: tree
    using that by (induction a) auto
  show ?thesis
    by (relation "measure (\<lambda>(a, b). size_list (size_prod (\<lambda>_. 0) size) a)")
       (auto dest: sub)
qed

declare merge.simps [simp del]

text \<open>What \<open>merge\<close> stores under one key, given the incoming value and the stored one.\<close>

definition merge_val :: "val \<Rightarrow> val option \<Rightarrow> val" where
  "merge_val v w = (case v of
                      VMap m \<Rightarrow> (case w of Some (VMap m') \<Rightarrow> VMap (merge m m') | _ \<Rightarrow> v)
                    | _ \<Rightarrow> v)"

text \<open>A tree shadows a path when it binds a proper prefix of the path to a value that is no map.\<close>

fun shadows :: "string list \<Rightarrow> tree \<Rightarrow> bool" where
  "shadows [] t = False"
| "shadows [k] t = False"
| "shadows (k # ks) t =
     (case map_of t k of None \<Rightarrow> False | Some (VMap m) \<Rightarrow> shadows ks m | Some _ \<Rightarrow> True)"

section \<open>Strings\<close>

text \<open>
  A Go string is a sequence of bytes, here a \<open>char list\<close>. \<open>strings.HasPrefix\<close>,
  \<open>strings.HasSuffix\<close> and \<open>strings.TrimSpace\<close> (on ASCII white space) are written out.
\<close>

definition HasPrefix :: "string \<Rightarrow> string \<Rightarrow> bool" where
  "HasPrefix s p = (take (length p) s = p)"

definition HasSuffix :: "string \<Rightarrow> string \<Rightarrow> bool" where
  "HasSuffix s p = (length p \<le> length s \<and> drop (length s - length p) s = p)"

definition is_space :: "char \<Rightarrow> bool" where
  "is_space c = (c = CHR '' '' \<or> c = CHR 0x09 \<or> c = CHR 0x0A \<or> c = CHR 0x0D)"

subsection \<open>A JSON decoder\<close>

text \<open>
  \<open>encoding/json\<close> is a parameter of the platform below. For closed examples the file has a
  decoder of its own for the JSON grammar: white space, objects (a repeated key keeps its last
  value), arrays, strings with their escapes, numbers (kept as the literal that was read) and
  the three literals. The fuel bounds the number of nested calls. Of two calls in a row at least
  one consumes a byte, so \<open>json_decode\<close> starts with two units of fuel for every byte.
\<close>

definition is_digit :: "char \<Rightarrow> bool" where
  "is_digit c = (48 \<le> (of_char c :: nat) \<and> (of_char c :: nat) \<le> 57)"

definition skip_space :: "string \<Rightarrow> string" where
  "skip_space cs = dropWhile is_space cs"

definition scan_int :: "string \<Rightarrow> (string \<times> string) option" where
  "scan_int cs = (case cs of
       [] \<Rightarrow> None
     | c # r \<Rightarrow> if c = CHR ''0'' then Some ([c], r)
               else if is_digit c then Some (c # takeWhile is_digit r, dropWhile is_digit r)
               else None)"

definition scan_frac :: "string \<Rightarrow> (string \<times> string) option" where
  "scan_frac cs = (case cs of
       [] \<Rightarrow> Some ([], [])
     | c # r \<Rightarrow> if c = CHR ''.''
               then (if takeWhile is_digit r = [] then None
                     else Some (c # takeWhile is_digit r, dropWhile is_digit r))
               else Some ([], cs))"

definition scan_sign :: "string \<Rightarrow> string \<times> string" where
  "scan_sign cs = (case cs of
       [] \<Rightarrow> ([], [])
     | c # r \<Rightarrow> if c = CHR ''+'' \<or> c = CHR ''-'' then ([c], r) else ([], cs))"

definition scan_exp :: "string \<Rightarrow> (string \<times> string) option" where
  "scan_exp cs = (case cs of
       [] \<Rightarrow> Some ([], [])
     | c # r \<Rightarrow> if c = CHR ''e'' \<or> c = CHR ''E''
               then (case scan_sign r of (sg, r') \<Rightarrow>
                       if takeWhile is_digit r' = [] then None
                       else Some (c # sg @ takeWhile is_digit r', dropWhile is_digit r'))
               else Some ([], cs))"

definition scan_number :: "string \<Rightarrow> (string \<times> string) option" where
  "scan_number cs =
     (case (case cs of [] \<Rightarrow> ([], []) | c # r \<Rightarrow> if c = CHR ''-'' then ([c], r) else ([], cs)) of
        (sg, r0) \<Rightarrow>
          (case scan_int r0 of None \<Rightarrow> None | Some (i, r1) \<Rightarrow>
          (case scan_frac r1 of None \<Rightarrow> None | Some (f, r2) \<Rightarrow>
          (case scan_exp r2 of None \<Rightarrow> None | Some (e, r3) \<Rightarrow> Some (sg @ i @ f @ e, r3)))))"

definition hex_digit :: "char \<Rightarrow> nat option" where
  "hex_digit c = (let n = (of_char c :: nat) in
       if 48 \<le> n \<and> n \<le> 57 then Some (n - 48)
       else if 97 \<le> n \<and> n \<le> 102 then Some (n - 87)
       else if 65 \<le> n \<and> n \<le> 70 then Some (n - 55)
       else None)"

text \<open>\<open>getu4\<close>: the code unit of \<open>\uXXXX\<close> at the head of the text.\<close>

definition getu4 :: "string \<Rightarrow> nat option" where
  "getu4 cs = (case cs of
       b # u # h1 # h2 # h3 # h4 # r \<Rightarrow>
         if b = CHR 0x5C \<and> u = CHR ''u'' then
           (case (hex_digit h1, hex_digit h2, hex_digit h3, hex_digit h4) of
              (Some a, Some b, Some c, Some d) \<Rightarrow> Some (((a * 16 + b) * 16 + c) * 16 + d)
            | _ \<Rightarrow> None)
         else None
     | _ \<Rightarrow> None)"

definition EncodeRune :: "nat \<Rightarrow> string" where
  "EncodeRune r =
     (if r < 128 then [char_of r]
      else if r < 2048 then [char_of (192 + r div 64), char_of (128 + r mod 64)]
      else if r < 65536 then
        [char_of (224 + r div 4096), char_of (128 + r div 64 mod 64), char_of (128 + r mod 64)]
      else [char_of (240 + r div 262144), char_of (128 + r div 4096 mod 64),
            char_of (128 + r div 64 mod 64), char_of (128 + r mod 64)])"

definition unescape :: "char \<Rightarrow> char option" where
  "unescape e =
     (if e = CHR 0x22 \<or> e = CHR 0x5C \<or> e = CHR ''/'' then Some e
      else if e = CHR ''b'' then Some (CHR 0x08)
      else if e = CHR ''f'' then Some (CHR 0x0C)
      else if e = CHR ''n'' then Some (CHR 0x0A)
      else if e = CHR ''r'' then Some (CHR 0x0D)
      else if e = CHR ''t'' then Some (CHR 0x09)
      else None)"

definition is_surrogate :: "nat \<Rightarrow> bool" where
  "is_surrogate r = (55296 \<le> r \<and> r < 57344)"

text \<open>The body of a string literal, after its opening quote; \<open>acc\<close> is the text so far, reversed.\<close>

fun scan_string :: "string \<Rightarrow> string \<Rightarrow> (string \<times> string) option" where
  "scan_string acc [] = None"
| "scan_string acc (c # cs) =
     (if c = CHR 0x22 then Some (rev acc, cs)
      else if c = CHR 0x5C then
        (case cs of
           [] \<Rightarrow> None
         | e # r \<Rightarrow>
             if e = CHR ''u'' then
               (case getu4 (c # cs) of
                  None \<Rightarrow> None
                | Some rr \<Rightarrow>
                    if is_surrogate rr then
                      (case getu4 (drop 4 r) of
                         Some rr1 \<Rightarrow>
                           if rr < 56320 \<and> 56320 \<le> rr1 \<and> rr1 < 57344
                           then scan_string
                                  (rev (EncodeRune ((rr - 55296) * 1024 + (rr1 - 56320) + 65536)) @ acc)
                                  (drop 10 r)
                           else scan_string (rev (EncodeRune 65533) @ acc) (drop 4 r)
                       | None \<Rightarrow> scan_string (rev (EncodeRune 65533) @ acc) (drop 4 r))
                    else scan_string (rev (EncodeRune rr) @ acc) (drop 4 r))
             else (case unescape e of None \<Rightarrow> None | Some b \<Rightarrow> scan_string (b # acc) r))
      else if (of_char c :: nat) < 32 then None
      else scan_string (c # acc) cs)"

fun json_value :: "nat \<Rightarrow> string \<Rightarrow> (val \<times> string) option"
  and json_elements :: "nat \<Rightarrow> val list \<Rightarrow> string \<Rightarrow> (val \<times> string) option"
  and json_members :: "nat \<Rightarrow> tree \<Rightarrow> string \<Rightarrow> (val \<times> string) option"
where
  "json_value 0 cs = None"
| "json_value (Suc n) cs =
     (case skip_space cs of
        [] \<Rightarrow> None
      | c # r \<Rightarrow>
          if c = CHR ''{'' then
            (case skip_space r of
               [] \<Rightarrow> None
             | d # r' \<Rightarrow> if d = CHR ''}'' then Some (VMap [], r') else json_members n [] (d # r'))
          else if c = CHR ''['' then
            (case skip_space r of
               [] \<Rightarrow> None
             | d # r' \<Rightarrow> if d = CHR '']'' then Some (VList [], r') else json_elements n [] (d # r'))
          else if c = CHR 0x22 then
            (case scan_string [] r of None \<Rightarrow> None | Some (s, r') \<Rightarrow> Some (VStr s, r'))
          else if take 4 (c # r) = ''true'' then Some (VBool True, drop 4 (c # r))
          else if take 5 (c # r) = ''false'' then Some (VBool False, drop 5 (c # r))
          else if take 4 (c # r) = ''null'' then Some (VNull, drop 4 (c # r))
          else (case scan_number (c # r) of None \<Rightarrow> None | Some (s, r') \<Rightarrow> Some (VNum s, r')))"
| "json_elements 0 acc cs = None"
| "json_elements (Suc n) acc cs =
     (case json_value n cs of
        None \<Rightarrow> None
      | Some (v, r) \<Rightarrow>
          (case skip_space r of
             [] \<Rightarrow> None
           | d # r' \<Rightarrow> if d = CHR '','' then json_elements n (acc @ [v]) r'
                      else if d = CHR '']'' then Some (VList (acc @ [v]), r')
                      else None))"
| "json_members 0 acc cs = None"
| "json_members (Suc n) acc cs =
     (case skip_space cs of
        [] \<Rightarrow> None
      | c # r \<Rightarrow>
          if c = CHR 0x22 then
            (case scan_string [] r of
               None \<Rightarrow> None
             | Some (k, r1) \<Rightarrow>
                 (case skip_space r1 of
                    [] \<Rightarrow> None
                  | d # r2 \<Rightarrow>
                      if d = CHR '':'' then
                        (case json_value n r2 of
                           None \<Rightarrow> None
                         | Some (v, r3) \<Rightarrow>
                             (case skip_space r3 of
                                [] \<Rightarrow> None
                              | e # r4 \<Rightarrow>
                                  if e = CHR '','' then json_members n (AList.update k v acc) r4
                                  else if e = CHR ''}'' then Some (VMap (AList.update k v acc), r4)
                                  else None))
                      else None))
          else None)"

text \<open>A JSON text is one value, with nothing but white space after it.\<close>

definition json_decode :: "string \<Rightarrow> val option" where
  "json_decode s = (case json_value (2 * length s + 2) s of
       None \<Rightarrow> None
     | Some (v, r) \<Rightarrow> if skip_space r = [] then Some v else None)"

text \<open>
  \<open>json.Unmarshal\<close> into a \<open>map[string]any\<close> and into a \<open>[]any\<close>: \<open>None\<close> when it returns an
  error. The text \<open>null\<close> leaves the nil map or slice and is no error.
\<close>

definition json_Unmarshal_map :: "string \<Rightarrow> tree option" where
  "json_Unmarshal_map s = (case json_decode s of
       Some (VMap m) \<Rightarrow> Some m | Some VNull \<Rightarrow> Some [] | _ \<Rightarrow> None)"

definition json_Unmarshal_slice :: "string \<Rightarrow> val list option" where
  "json_Unmarshal_slice s = (case json_decode s of
       Some (VList a) \<Rightarrow> Some a | Some VNull \<Rightarrow> Some [] | _ \<Rightarrow> None)"


subsection \<open>Lower-casing\<close>

text \<open>
  \<open>strings.ToLower\<close> maps the bytes \<open>A\<close> to \<open>Z\<close> of an ASCII string to \<open>a\<close> to \<open>z\<close>; a string
  with a byte from 128 on goes through the Unicode tables, which are a parameter of the platform.
\<close>

definition is_ascii :: "char \<Rightarrow> bool" where
  "is_ascii c = ((of_char c :: nat) < 128)"


definition lower_byte :: "char \<Rightarrow> char" where
  "lower_byte c = (if 65 \<le> (of_char c :: nat) \<and> (of_char c :: nat) \<le> 90
                   then char_of ((of_char c :: nat) + 32) else c)"

definition TrimSpace :: "string \<Rightarrow> string" where
  "TrimSpace s = rev (dropWhile is_space (rev (dropWhile is_space s)))"

section \<open>The platform\<close>

text \<open>
  What the package imports and what it reads, as one record.
  \<^item> \<open>yaml_source path\<close>: what \<open>k.Load(file.Provider(path), yaml.Parser())\<close> obtains, the parsed
    tree or the error of reading or parsing.
  \<^item> \<open>dotenv_source\<close>: the key/value pairs of the file \<open>.env\<close>, or the error of reading or
    parsing it.
  \<^item> \<open>env_source\<close>: the key/value pairs of the process environment, or the provider's error.
  \<^item> \<open>nest\<close>: how koanf turns transformed pairs into a tree (keys split at \<open>__\<close>).
  \<^item> \<open>json_object\<close>, \<open>json_array\<close>: \<open>json.Unmarshal\<close> into a map and into a slice, \<open>None\<close> on
    error.
  \<^item> \<open>unicode_lower\<close>: \<open>strings.ToLower\<close> on strings that are not ASCII.
  \<^item> \<open>unmarshal\<close>: \<open>k.Unmarshal("", c)\<close>, from the merged tree and the target to the error and
    the target after the call.
\<close>

record 'c platform =
  yaml_source :: "string \<Rightarrow> error + tree"
  dotenv_source :: "error + (string \<times> string) list"
  env_source :: "error + (string \<times> string) list"
  nest :: "(string \<times> val) list \<Rightarrow> tree"
  json_object :: "string \<Rightarrow> tree option"
  json_array :: "string \<Rightarrow> val list option"
  unicode_lower :: "string \<Rightarrow> string"
  unmarshal :: "tree \<Rightarrow> 'c \<Rightarrow> error option \<times> 'c"

definition strings_ToLower :: "'c platform \<Rightarrow> string \<Rightarrow> string" where
  "strings_ToLower P s = (if list_all is_ascii s then map lower_byte s else unicode_lower P s)"

section \<open>The package\<close>

text \<open>\<open>envTransform\<close>: the callback given to the dotenv parser and to the environment provider.\<close>

definition envTransform :: "'c platform \<Rightarrow> string \<Rightarrow> string \<Rightarrow> string \<times> val" where
  "envTransform P k v =
     (case (if HasPrefix v ''{'' \<and> HasSuffix v ''}'' then json_object P v else None) of
        Some m \<Rightarrow> (strings_ToLower P k, VMap m)
      | None \<Rightarrow>
          (case (if HasPrefix v ''['' \<and> HasSuffix v '']'' then json_array P v else None) of
             Some a \<Rightarrow> (strings_ToLower P k, VList a)
           | None \<Rightarrow> (strings_ToLower P k, VStr v)))"

text \<open>
  The options. \<open>new(options)\<close> has the empty path; \<open>apply\<close> runs the option functions in
  order; \<open>WithLocalYAML\<close> sets the path.
\<close>

record options =
  withYaml :: string

type_synonym Option = "options \<Rightarrow> options"

definition new_options :: options where
  "new_options = \<lparr>withYaml = []\<rparr>"

definition options_apply :: "options \<Rightarrow> Option list \<Rightarrow> options" where
  "options_apply o1 opts = fold (\<lambda>opt acc. opt acc) opts o1"

definition WithLocalYAML :: "string \<Rightarrow> Option" where
  "WithLocalYAML path = (\<lambda>o1. o1\<lparr>withYaml := path\<rparr>)"

text \<open>
  The koanf instance \<open>k\<close>: its tree, and a log of the calls made on it (\<open>k.Load\<close> with a file
  provider, \<open>k.Load\<close> with the environment provider, \<open>k.Unmarshal\<close>). \<open>k.Load\<close> reads the
  provider, and merges what it returned into the tree unless there was an error.
\<close>

datatype call = Load_file string | Load_env | Unmarshal_conf

record koanf =
  confMap :: tree
  calls :: "call list"

definition koanf_New :: koanf where
  "koanf_New = \<lparr>confMap = [], calls = []\<rparr>"

definition koanf_Load :: "call \<Rightarrow> error + tree \<Rightarrow> koanf \<Rightarrow> error option \<times> koanf" where
  "koanf_Load c src k =
     (case src of
        Inl err \<Rightarrow> (Some err, k\<lparr>calls := calls k @ [c]\<rparr>)
      | Inr mp \<Rightarrow> (None, k\<lparr>confMap := merge mp (confMap k), calls := calls k @ [c]\<rparr>))"

text \<open>
  What the dotenv parser and the environment provider hand to \<open>k.Load\<close>: every pair goes
  through \<open>envTransform\<close>, and the result is nested.
\<close>

definition transformed :: "'c platform \<Rightarrow> error + (string \<times> string) list \<Rightarrow> error + tree" where
  "transformed P src =
     (case src of
        Inl err \<Rightarrow> Inl err
      | Inr kvs \<Rightarrow> Inr (nest P (map (\<lambda>(k, v). envTransform P k v) kvs)))"

text \<open>
  The three loading stages. Each returns the error (\<open>None\<close> is nil) and \<open>k\<close> after the call.
\<close>

definition loadFromYAML :: "'c platform \<Rightarrow> string \<Rightarrow> koanf \<Rightarrow> error option \<times> koanf" where
  "loadFromYAML P path k =
     (if path = [] then (None, k)
      else (case koanf_Load (Load_file path) (yaml_source P path) k of
              (Some err, k') \<Rightarrow>
                if \<not> errors_Is err ErrNotExist then (Some (Errorf ''load yaml'' err), k')
                else (None, k')
            | (None, k') \<Rightarrow> (None, k')))"

definition loadDotenv :: "'c platform \<Rightarrow> koanf \<Rightarrow> error option \<times> koanf" where
  "loadDotenv P k =
     (case koanf_Load (Load_file ''.env'') (transformed P (dotenv_source P)) k of
        (Some err, k') \<Rightarrow>
          if \<not> errors_Is err ErrNotExist then (Some (Errorf ''load dotenv'' err), k')
          else (None, k')
      | (None, k') \<Rightarrow> (None, k'))"

definition loadEnv :: "'c platform \<Rightarrow> koanf \<Rightarrow> error option \<times> koanf" where
  "loadEnv P k =
     (case koanf_Load Load_env (transformed P (env_source P)) k of
        (Some err, k') \<Rightarrow> (Some (Errorf ''load env'' err), k')
      | (None, k') \<Rightarrow> (None, k'))"

text \<open>
  \<open>Load\<close> returns the error, the target after the call, and \<open>k\<close> as the call left it
  (which the Go function drops).
\<close>

definition Load :: "'c platform \<Rightarrow> 'c \<Rightarrow> Option list \<Rightarrow> error option \<times> 'c \<times> koanf" where
  "Load P c opts =
     (case loadFromYAML P (withYaml (options_apply new_options opts)) koanf_New of
        (Some err, k1) \<Rightarrow> (Some err, c, k1)
      | (None, k1) \<Rightarrow>
     (case loadDotenv P k1 of
        (Some err, k2) \<Rightarrow> (Some err, c, k2)
      | (None, k2) \<Rightarrow>
     (case loadEnv P k2 of
        (Some err, k3) \<Rightarrow> (Some err, c, k3)
      | (None, k3) \<Rightarrow>
     (case unmarshal P (confMap k3) c of
        (Some err, c') \<Rightarrow>
          (Some (Errorf ''unmarshal'' err), c', k3\<lparr>calls := calls k3 @ [Unmarshal_conf]\<rparr>)
      | (None, c') \<Rightarrow> (None, c', k3\<lparr>calls := calls k3 @ [Unmarshal_conf]\<rparr>)))))"

subsection \<open>What the sources define and report\<close>

text \<open>
  The tree each source defines (empty when the source is skipped, missing or in error), and the
  error each stage reports, following section 7 of the specification: not-found is no error
  for the two files.
\<close>

definition yaml_defines :: "'c platform \<Rightarrow> string \<Rightarrow> tree" where
  "yaml_defines P path =
     (if path = [] then [] else (case yaml_source P path of Inl err \<Rightarrow> [] | Inr t \<Rightarrow> t))"

definition dotenv_defines :: "'c platform \<Rightarrow> tree" where
  "dotenv_defines P = (case transformed P (dotenv_source P) of Inl err \<Rightarrow> [] | Inr t \<Rightarrow> t)"

definition env_defines :: "'c platform \<Rightarrow> tree" where
  "env_defines P = (case transformed P (env_source P) of Inl err \<Rightarrow> [] | Inr t \<Rightarrow> t)"

definition yaml_reports :: "'c platform \<Rightarrow> string \<Rightarrow> error option" where
  "yaml_reports P path =
     (if path = [] then None
      else (case yaml_source P path of
              Inl e \<Rightarrow> if errors_Is e ErrNotExist then None else Some e
            | Inr t \<Rightarrow> None))"

definition dotenv_reports :: "'c platform \<Rightarrow> error option" where
  "dotenv_reports P =
     (case dotenv_source P of
        Inl e \<Rightarrow> if errors_Is e ErrNotExist then None else Some e
      | Inr kvs \<Rightarrow> None)"

definition env_reports :: "'c platform \<Rightarrow> error option" where
  "env_reports P = (case env_source P of Inl e \<Rightarrow> Some e | Inr kvs \<Rightarrow> None)"

text \<open>The tree after the three stages, and the tags of the four stages.\<close>

definition merged :: "'c platform \<Rightarrow> string \<Rightarrow> tree" where
  "merged P path = merge (env_defines P) (merge (dotenv_defines P) (yaml_defines P path))"

text \<open>The calls the structured-file stage makes on \<open>k\<close>, and the path the options choose.\<close>

definition yaml_calls :: "string \<Rightarrow> call list" where
  "yaml_calls path = (if path = [] then [] else [Load_file path])"

definition chosen_path :: "Option list \<Rightarrow> string" where
  "chosen_path opts = withYaml (options_apply new_options opts)"

definition stage_tags :: "string set" where
  "stage_tags = {''load yaml'', ''load dotenv'', ''load env'', ''unmarshal''}"

subsection \<open>Nesting\<close>

text \<open>
  Modelled from the spec: the source readers of sections 4.1 and 4.2 map a raw key with the
  delimiter \<open>__\<close> to a key path (\<open>database__host\<close> to \<open>database.host\<close>); the reading and
  nesting code is koanf's. \<open>Split\<close> is \<open>strings.Split(k, "__")\<close>, \<open>set_path\<close> stores a value at a
  path, and \<open>Unflatten\<close> does so for every pair in turn. It serves as \<open>nest\<close> in the examples.
\<close>

fun Split :: "string \<Rightarrow> string \<Rightarrow> string list" where
  "Split acc (c # d # cs) =
     (if c = CHR ''_'' \<and> d = CHR ''_'' then rev acc # Split [] cs else Split (c # acc) (d # cs))"
| "Split acc [c] = [rev (c # acc)]"
| "Split acc [] = [rev acc]"

fun set_path :: "string list \<Rightarrow> val \<Rightarrow> tree \<Rightarrow> tree" where
  "set_path [] v t = t"
| "set_path [k] v t = AList.update k v t"
| "set_path (k # ks) v t =
     AList.update k
       (VMap (set_path ks v (case map_of t k of Some (VMap m) \<Rightarrow> m | _ \<Rightarrow> []))) t"

definition Unflatten :: "(string \<times> val) list \<Rightarrow> tree" where
  "Unflatten kvs = fold (\<lambda>(k, v) t. if k = [] then t else set_path (Split [] k) v t) kvs []"

subsection \<open>The materializer\<close>

text \<open>
  Modelled from the spec: the Materializer of section 4.4, which is koanf's \<open>Unmarshal\<close>. The
  target is a structure of named fields, each a scalar or a nested structure. \<open>Decode\<close> walks
  the fields by name: a field whose key the tree holds is converted (\<open>conv\<close>, the conversion to
  the field's type, or a nested decoding of a map), the first failing conversion is the error,
  and a field whose key the tree does not hold is left as the caller had it.
\<close>

datatype 'a target = Scalar 'a | Struct "(string \<times> 'a target) list"

fun field :: "string list \<Rightarrow> 'a target \<Rightarrow> 'a target option" where
  "field [] t = Some t"
| "field (k # ks) (Struct fs) = (case map_of fs k of None \<Rightarrow> None | Some t \<Rightarrow> field ks t)"
| "field (k # ks) (Scalar a) = None"

fun Decode :: "(val \<Rightarrow> 'a \<Rightarrow> error + 'a) \<Rightarrow> val \<Rightarrow> 'a target \<Rightarrow> error option \<times> 'a target"
  and decode_fields :: "(val \<Rightarrow> 'a \<Rightarrow> error + 'a) \<Rightarrow> tree \<Rightarrow> (string \<times> 'a target) list
                         \<Rightarrow> error option \<times> (string \<times> 'a target) list"
where
  "Decode conv v (Scalar a) =
     (case conv v a of Inl err \<Rightarrow> (Some err, Scalar a) | Inr a' \<Rightarrow> (None, Scalar a'))"
| "Decode conv v (Struct fs) =
     (case v of
        VMap m \<Rightarrow> (case decode_fields conv m fs of (err, fs') \<Rightarrow> (err, Struct fs'))
      | _ \<Rightarrow> (Some (New ''expected a map''), Struct fs))"
| "decode_fields conv m [] = (None, [])"
| "decode_fields conv m ((name, t) # fs) =
     (case map_of m name of
        None \<Rightarrow> (case decode_fields conv m fs of (err, fs') \<Rightarrow> (err, (name, t) # fs'))
      | Some v \<Rightarrow>
          (case Decode conv v t of
             (Some err, t') \<Rightarrow> (Some err, (name, t') # fs)
           | (None, t') \<Rightarrow>
               (case decode_fields conv m fs of (err, fs') \<Rightarrow> (err, (name, t') # fs'))))"

text \<open>\<open>k.Unmarshal("", c)\<close> for a target structure: the whole tree is decoded into it.\<close>

definition decode_into ::
  "(val \<Rightarrow> 'a \<Rightarrow> error + 'a) \<Rightarrow> tree \<Rightarrow> 'a target \<Rightarrow> error option \<times> 'a target"
where
  "decode_into conv t c = Decode conv (VMap t) c"

subsection \<open>Example platforms\<close>

text \<open>
  The sources of the repository's precedence test: a file \<open>config.yaml\<close>, an invalid file, no
  other file; a \<open>.env\<close> file; two environment variables. The variants below change one source.
  All keys are ASCII, so the Unicode tables are never consulted.
  \<open>into_map\<close> is the materializer for a target of type \<open>map[string]any\<close> that starts nil.
\<close>

definition example_sources :: "(tree \<Rightarrow> 'c \<Rightarrow> error option \<times> 'c) \<Rightarrow> 'c platform" where
  "example_sources um =
     \<lparr>yaml_source = (\<lambda>p.
         if p = ''config.yaml''
         then Inr [(''database'', VMap [(''host'', VStr ''yaml-host''), (''port'', VNum ''3306''),
                                       (''username'', VStr ''yaml-user'')]),
                   (''server'', VMap [(''port'', VNum ''9090'')])]
         else if p = ''invalid.yaml'' then Inl (New ''yaml: did not find expected node content'')
         else Inl (Errorf (''open '' @ p) ErrNotExist)),
      dotenv_source = Inr [(''DATABASE__HOST'', ''env-file-host''), (''DATABASE__PORT'', ''5433''),
                           (''SERVER__PORT'', ''8080'')],
      env_source = Inr [(''DATABASE__HOST'', ''env-host''), (''DATABASE__PORT'', ''9999'')],
      nest = Unflatten,
      json_object = json_Unmarshal_map,
      json_array = json_Unmarshal_slice,
      unicode_lower = (\<lambda>s. s),
      unmarshal = um\<rparr>"

definition into_map :: "tree \<Rightarrow> tree \<Rightarrow> error option \<times> tree" where
  "into_map t c = (None, t)"

text \<open>
  A conversion for fields that hold a string or an integer, and the structure of the
  repository's test configuration at its zero value.
\<close>

definition example_conv :: "val \<Rightarrow> val \<Rightarrow> error + val" where
  "example_conv v a =
     (case a of
        VNum z \<Rightarrow>
          (case v of
             VNum n \<Rightarrow> Inr (VNum n)
           | VStr s \<Rightarrow> if s \<noteq> [] \<and> list_all is_digit s then Inr (VNum s)
                      else Inl (New (''cannot parse '' @ s @ '' as int''))
           | _ \<Rightarrow> Inl (New ''expected a number''))
      | VStr z \<Rightarrow>
          (case v of
             VStr s \<Rightarrow> Inr (VStr s)
           | VNum n \<Rightarrow> Inr (VStr n)
           | _ \<Rightarrow> Inl (New ''expected a string''))
      | _ \<Rightarrow> Inl (New ''unsupported field type''))"

definition TestConfig :: "val target" where
  "TestConfig =
     Struct [(''database'', Struct [(''host'', Scalar (VStr [])), (''port'', Scalar (VNum ''0'')),
                                   (''username'', Scalar (VStr [])), (''password'', Scalar (VStr []))]),
             (''server'', Struct [(''port'', Scalar (VNum ''0''))])]"


definition broken_dotenv :: "tree platform" where
  "broken_dotenv =
     (example_sources into_map)
       \<lparr>dotenv_source := Inl (New ''unexpected character in variable name'')\<rparr>"

definition broken_env :: "tree platform" where
  "broken_env = (example_sources into_map)\<lparr>env_source := Inl (New ''environment unavailable'')\<rparr>"

definition bad_port_sources :: "val target platform" where
  "bad_port_sources =
     (example_sources (decode_into example_conv))\<lparr>env_source := Inr [(''SERVER__PORT'', ''http'')]\<rparr>"



section \<open>Properties\<close>

subsection \<open>Duration\<close>

lemma sublist_Error_Errorf: "sublist p (Error (Errorf p e))"
  by (simp add: sublist_append)

text \<open>
  C10. On an allocated receiver, \<open>UnmarshalText\<close> always returns. It returns nil exactly when
  \<open>time.ParseDuration\<close> accepts the text, and the receiver then holds the parsed duration.
  Otherwise the error's message contains \<open>can't parse duration\<close>, the error wraps the parse
  failure, and the receiver keeps its value.
\<close>

theorem UnmarshalText_result:
  "\<exists>err d'. UnmarshalText pd (Some d0) s = Return (err, d')
     \<and> (err = None \<longleftrightarrow> (\<exists>t. pd s = Inr t))
     \<and> (\<forall>t. pd s = Inr t \<longrightarrow> d' = Some t)
     \<and> (\<forall>e. pd s = Inl e \<longrightarrow>
           (\<exists>e'. err = Some e' \<and> sublist ''can't parse duration'' (Error e')
                 \<and> Unwrap e' = Some e \<and> errors_Is e' e)
           \<and> d' = Some d0)"
proof (cases "pd s")
  case (Inl e)
  have "errors_Is (Errorf ''can't parse duration'' e) e"
    by (cases e) simp_all
  with Inl show ?thesis
    unfolding UnmarshalText_def using sublist_Error_Errorf by simp
next
  case (Inr t)
  then show ?thesis unfolding UnmarshalText_def by simp
qed

theorem UnmarshalText_result_witness:
  "UnmarshalText example_ParseDuration (Some 5) ''1s'' = Return (None, Some 1000000000)
   \<and> UnmarshalText example_ParseDuration (Some 5) ''soon''
       = Return (Some (Errorf ''can't parse duration'' (New ''time: invalid duration soon'')), Some 5)"
proof -
  have ok: "example_ParseDuration ''1s'' = Inr 1000000000"
    and bad: "example_ParseDuration ''soon'' = Inl (New ''time: invalid duration soon'')"
    by (simp_all add: example_ParseDuration_def)
  from UnmarshalText_result [of example_ParseDuration 5 "''1s''"] ok
  have "UnmarshalText example_ParseDuration (Some 5) ''1s'' = Return (None, Some 1000000000)"
    by auto
  moreover
  from UnmarshalText_result [of example_ParseDuration 5 "''soon''"] bad
  have "UnmarshalText example_ParseDuration (Some 5) ''soon''
          = Return (Some (Errorf ''can't parse duration'' (New ''time: invalid duration soon'')), Some 5)"
    by (auto simp: UnmarshalText_def)
  ultimately show ?thesis by simp
qed

text \<open>On a nil receiver the successful path dereferences nil; the failing path returns.\<close>

lemma UnmarshalText_nil_receiver:
  "UnmarshalText pd None s =
     (case pd s of
        Inl err \<Rightarrow> Return (Some (Errorf ''can't parse duration'' err), None)
      | Inr t \<Rightarrow> NilDereference)"
  by (simp add: UnmarshalText_def split: sum.splits)

subsection \<open>The merge store\<close>

lemma merge_val_maps [simp]: "merge_val (VMap m) (Some (VMap m')) = VMap (merge m m')"
  by (simp add: merge_val_def)

lemma merge_val_overwrite:
  "\<not> (is_map v \<and> (\<exists>m'. w = Some (VMap m'))) \<Longrightarrow> merge_val v w = v"
  by (auto simp: merge_val_def split: val.splits option.splits)

lemma map_of_map_keyed:
  "map_of (map (\<lambda>(k, v). (k, f k v)) a) k = map_option (f k) (map_of a k)"
  by (induction a) auto

lemma map_of_filter_absent:
  "map_of (filter (\<lambda>(k, w). P k) b) k = (if P k then map_of b k else None)"
  by (induction b) auto

lemma map_of_merge:
  "map_of (merge a b) k =
     (case map_of a k of None \<Rightarrow> map_of b k | Some v \<Rightarrow> Some (merge_val v (map_of b k)))"
proof -
  have f: "(\<lambda>(k, v). (k, case v of
                         VMap m \<Rightarrow> (case map_of b k of Some (VMap m') \<Rightarrow> VMap (merge m m') | _ \<Rightarrow> v)
                       | _ \<Rightarrow> v)) = (\<lambda>(k, v). (k, merge_val v (map_of b k)))"
    by (simp add: merge_val_def)
  have m: "map_of (map (\<lambda>(k, v). (k, merge_val v (map_of b k))) a) k
             = map_option (\<lambda>v. merge_val v (map_of b k)) (map_of a k)"
    by (rule map_of_map_keyed [where f = "\<lambda>k v. merge_val v (map_of b k)"])
  have r: "map_of (filter (\<lambda>(k, w). map_of a k = None) b) k
             = (if map_of a k = None then map_of b k else None)"
    by (rule map_of_filter_absent [where P = "\<lambda>k. map_of a k = None"])
  have "map_of (merge a b) k
          = (map_of (filter (\<lambda>(k, w). map_of a k = None) b)
              ++ map_of (map (\<lambda>(k, v). (k, merge_val v (map_of b k))) a)) k"
    by (subst merge.simps) (simp only: f map_of_append)
  then show ?thesis
    by (simp only: map_add_def m r) (simp split: option.splits)
qed

lemma get_nonmap [simp]: "\<not> is_map v \<Longrightarrow> get (k # ks) v = None"
  by (cases v) auto

lemma merge_later_wins:
  "get p (VMap a) = Some v \<Longrightarrow> \<not> is_map v \<Longrightarrow> get p (VMap (merge a b)) = Some v"
proof (induction p arbitrary: a b)
  case Nil
  then show ?case by auto
next
  case (Cons k ks)
  then obtain v' where v': "map_of a k = Some v'" "get ks v' = Some v"
    by (auto split: option.splits)
  show ?case
  proof (cases "is_map v' \<and> (\<exists>m'. map_of b k = Some (VMap m'))")
    case True
    then obtain m m' where m: "v' = VMap m" "map_of b k = Some (VMap m')"
      by (cases v') auto
    with v' Cons show ?thesis by (simp add: map_of_merge)
  next
    case False
    then have "merge_val v' (map_of b k) = v'"
      by (rule merge_val_overwrite)
    with v' show ?thesis by (simp add: map_of_merge)
  qed
qed

lemma merge_keeps_earlier:
  "get p (VMap a) = None \<Longrightarrow> \<not> shadows p a \<Longrightarrow> get p (VMap (merge a b)) = get p (VMap b)"
proof (induction p arbitrary: a b)
  case Nil
  then show ?case by simp
next
  case (Cons k ks)
  show ?case
  proof (cases "map_of a k")
    case None
    then show ?thesis by (simp add: map_of_merge)
  next
    case (Some v')
    with Cons.prems obtain k' ks' where ks: "ks = k' # ks'"
      by (cases ks) auto
    from Some Cons.prems ks obtain m where m: "v' = VMap m"
      by (cases v') auto
    from Some m Cons.prems ks have sub: "get ks (VMap m) = None" "\<not> shadows ks m"
      by auto
    show ?thesis
    proof (cases "\<exists>m'. map_of b k = Some (VMap m')")
      case True
      then obtain m' where "map_of b k = Some (VMap m')" by blast
      with Some m sub Cons.IH show ?thesis by (simp add: map_of_merge)
    next
      case False
      then have "merge_val v' (map_of b k) = v'"
        by (simp add: merge_val_overwrite)
      moreover from False have "get (k # ks) (VMap b) = None"
      proof (cases "map_of b k")
        case None
        then show ?thesis by simp
      next
        case (Some w)
        with False have "\<not> is_map w" by (cases w) auto
        with Some ks show ?thesis by simp
      qed
      ultimately have "merge_val v' (map_of b k) = v'" "get (k # ks) (VMap b) = None" by simp_all
      with Some m sub show ?thesis by (simp add: map_of_merge)
    qed
  qed
qed


lemma merge_Nil [simp]: "merge [] b = b"
  by (subst merge.simps) simp


text \<open>
  C6, as amended. Merging is an ordered overwrite: a key path at which the later source holds
  a value that is no map holds that value after the merge; a key path that the later source
  neither holds nor shadows keeps what the earlier source had, so absence alone erases nothing;
  under one key two maps merge key by key, and a value that is no map replaces what was stored.
\<close>

theorem merge_ordered_overwrite:
  "(get p (VMap later) = Some v \<and> \<not> is_map v \<longrightarrow> get p (VMap (merge later earlier)) = Some v)
   \<and> (get p (VMap later) = None \<and> \<not> shadows p later \<longrightarrow>
        get p (VMap (merge later earlier)) = get p (VMap earlier))
   \<and> (map_of later k = Some (VMap m) \<and> map_of earlier k = Some (VMap m') \<longrightarrow>
        map_of (merge later earlier) k = Some (VMap (merge m m')))
   \<and> (map_of later k = Some v \<and> \<not> is_map v \<longrightarrow> map_of (merge later earlier) k = Some v)"
proof (intro conjI impI)
  assume "get p (VMap later) = Some v \<and> \<not> is_map v"
  then show "get p (VMap (merge later earlier)) = Some v"
    by (simp add: merge_later_wins)
next
  assume "get p (VMap later) = None \<and> \<not> shadows p later"
  then show "get p (VMap (merge later earlier)) = get p (VMap earlier)"
    by (simp add: merge_keeps_earlier)
next
  assume "map_of later k = Some (VMap m) \<and> map_of earlier k = Some (VMap m')"
  then show "map_of (merge later earlier) k = Some (VMap (merge m m'))"
    by (simp add: map_of_merge)
next
  assume "map_of later k = Some v \<and> \<not> is_map v"
  then show "map_of (merge later earlier) k = Some v"
    by (simp add: map_of_merge merge_val_overwrite)
qed

theorem merge_ordered_overwrite_witness:
  "get [''server'', ''port''] (VMap (merge [(''server'', VMap [(''port'', VStr ''9999'')])]
         [(''server'', VMap [(''port'', VNum ''9090'')]), (''database'', VMap [(''host'', VStr ''h'')])]))
     = Some (VStr ''9999'')
   \<and> get [''database'', ''host''] (VMap (merge [(''server'', VMap [(''port'', VStr ''9999'')])]
         [(''server'', VMap [(''port'', VNum ''9090'')]), (''database'', VMap [(''host'', VStr ''h'')])]))
     = Some (VStr ''h'')
   \<and> map_of (merge [(''server'', VMap [(''port'', VStr ''9999'')])]
         [(''server'', VMap [(''port'', VNum ''9090'')]), (''database'', VMap [(''host'', VStr ''h'')])]) ''server''
     = Some (VMap (merge [(''port'', VStr ''9999'')] [(''port'', VNum ''9090'')]))
   \<and> map_of (merge [(''port'', VStr ''9999'')] [(''port'', VNum ''9090'')]) ''port''
     = Some (VStr ''9999'')"
proof -
  let ?later = "[(''server'', VMap [(''port'', VStr ''9999'')])]"
  let ?earlier = "[(''server'', VMap [(''port'', VNum ''9090'')]), (''database'', VMap [(''host'', VStr ''h'')])]"
  note a = merge_ordered_overwrite [of "[''server'', ''port'']" ?later "VStr ''9999''" ?earlier
      "''server''" "[(''port'', VStr ''9999'')]" "[(''port'', VNum ''9090'')]"]
  note b = merge_ordered_overwrite [of "[''database'', ''host'']" ?later "VStr ''h''" ?earlier
      "''port''" "[]" "[]"]
  note c = merge_ordered_overwrite [of "[]" "[(''port'', VStr ''9999'')]" "VStr ''9999''"
      "[(''port'', VNum ''9090'')]" "''port''" "[]" "[]"]
  from a [THEN conjunct1] have 1: "get [''server'', ''port''] (VMap (merge ?later ?earlier)) = Some (VStr ''9999'')"
    by simp
  from b [THEN conjunct2, THEN conjunct1] have 2: "get [''database'', ''host''] (VMap (merge ?later ?earlier)) = Some (VStr ''h'')"
    by simp
  from a [THEN conjunct2, THEN conjunct2, THEN conjunct1] have 3: "map_of (merge ?later ?earlier) ''server''
        = Some (VMap (merge [(''port'', VStr ''9999'')] [(''port'', VNum ''9090'')]))"
    by simp
  from c [THEN conjunct2, THEN conjunct2, THEN conjunct2] have 4: "map_of (merge [(''port'', VStr ''9999'')] [(''port'', VNum ''9090'')]) ''port''
        = Some (VStr ''9999'')"
    by simp
  from 1 2 3 4 show ?thesis by simp
qed

text \<open>
  A key path present only in the earlier source that does not survive: the later source binds
  \<open>database\<close> to a string, which replaces the earlier map and its \<open>host\<close> entry.
\<close>

theorem merge_never_deletes_counterexample:
  "get [''database'', ''host''] (VMap [(''database'', VMap [(''host'', VStr ''h'')])]) = Some (VStr ''h'')
   \<and> get [''database'', ''host''] (VMap [(''database'', VStr ''x'')]) = None
   \<and> get [''database'', ''host'']
        (VMap (merge [(''database'', VStr ''x'')] [(''database'', VMap [(''host'', VStr ''h'')])])) = None"
  by (simp add: merge.simps)


subsection \<open>The transformation\<close>


text \<open>
  C5. \<open>envTransform\<close> is a function of its two arguments that returns a pair and has no error
  result. The value \<open>[\<close> comes back as the string \<open>[\<close>, and whenever neither decoder accepts
  the value, the value comes back as the original string.
\<close>

theorem envTransform_total:
  "(\<exists>k' x. envTransform P k v = (k', x))
   \<and> envTransform P k ''['' = (strings_ToLower P k, VStr ''['')
   \<and> (json_object P v = None \<and> json_array P v = None \<longrightarrow>
        envTransform P k v = (strings_ToLower P k, VStr v))"
  by (simp add: envTransform_def HasPrefix_def HasSuffix_def)

theorem envTransform_total_witness:
  "json_object (example_sources into_map) ''{oops}'' = None
   \<and> json_array (example_sources into_map) ''{oops}'' = None
   \<and> envTransform (example_sources into_map) ''DB__PASSWORD'' ''{oops}''
       = (''db__password'', VStr ''{oops}'')"
proof -
  have o: "json_object (example_sources into_map) ''{oops}'' = None"
    by (simp add: example_sources_def) code_simp
  have a: "json_array (example_sources into_map) ''{oops}'' = None"
    by (simp add: example_sources_def) code_simp
  have l: "strings_ToLower (example_sources into_map) ''DB__PASSWORD'' = ''db__password''"
    by code_simp
  from envTransform_total [of "example_sources into_map" "''DB__PASSWORD''" "''{oops}''"] o a l
  show ?thesis by simp
qed

text \<open>
  C4, as amended. The value is examined as it is, without trimming: if it starts with \<open>{\<close>,
  ends with \<open>}\<close> and decodes as a JSON object, the result is that map; else if it starts with
  \<open>[\<close>, ends with \<open>]\<close> and decodes as a JSON array, the result is that sequence; otherwise
  the result is the original string.
\<close>

theorem envTransform_coercion:
  "(HasPrefix v ''{'' \<and> HasSuffix v ''}'' \<and> json_object P v = Some m \<longrightarrow>
      snd (envTransform P k v) = VMap m)
   \<and> (\<not> (HasPrefix v ''{'' \<and> HasSuffix v ''}'' \<and> json_object P v \<noteq> None)
        \<and> HasPrefix v ''['' \<and> HasSuffix v '']'' \<and> json_array P v = Some a \<longrightarrow>
      snd (envTransform P k v) = VList a)
   \<and> (\<not> (HasPrefix v ''{'' \<and> HasSuffix v ''}'' \<and> json_object P v \<noteq> None)
        \<and> \<not> (HasPrefix v ''['' \<and> HasSuffix v '']'' \<and> json_array P v \<noteq> None) \<longrightarrow>
      snd (envTransform P k v) = VStr v)"
  by (auto simp: envTransform_def split: option.splits)

lemma json_example_object:
  \<open>json_Unmarshal_map ''{"debug": true}'' = Some [(''debug'', VBool True)]\<close>
  by code_simp

lemma json_example_array:
  \<open>json_Unmarshal_slice ''[1, "a"]'' = Some [VNum ''1'', VStr ''a'']\<close>
  by code_simp

lemma json_example_padded:
  \<open>json_Unmarshal_map '' {"debug": true}'' = Some [(''debug'', VBool True)]\<close>
  by code_simp

theorem envTransform_coercion_witness:
  \<open>snd (envTransform (example_sources into_map) ''FEATURE_FLAGS'' ''{"debug": true}'')
     = VMap [(''debug'', VBool True)]
   \<and> snd (envTransform (example_sources into_map) ''PORTS'' ''[1, "a"]'')
     = VList [VNum ''1'', VStr ''a'']
   \<and> snd (envTransform (example_sources into_map) ''HOST'' ''localhost'') = VStr ''localhost''\<close>
proof -
  let ?P = "example_sources into_map :: tree platform"
  have P: "json_object ?P = json_Unmarshal_map" "json_array ?P = json_Unmarshal_slice"
    by (simp_all add: example_sources_def)
  have 1: \<open>snd (envTransform ?P ''FEATURE_FLAGS'' ''{"debug": true}'') = VMap [(''debug'', VBool True)]\<close>
    using envTransform_coercion [of \<open>''{"debug": true}''\<close> ?P "[(''debug'', VBool True)]"
        "''FEATURE_FLAGS''" "[]", THEN conjunct1]
    by (simp add: P json_example_object HasPrefix_def HasSuffix_def)
  have 2: \<open>snd (envTransform ?P ''PORTS'' ''[1, "a"]'') = VList [VNum ''1'', VStr ''a'']\<close>
    using envTransform_coercion [of \<open>''[1, "a"]''\<close> ?P "[]" "''PORTS''" "[VNum ''1'', VStr ''a'']",
        THEN conjunct2, THEN conjunct1]
    by (simp add: P json_example_array HasPrefix_def HasSuffix_def)
  have 3: "snd (envTransform ?P ''HOST'' ''localhost'') = VStr ''localhost''"
    using envTransform_coercion [of "''localhost''" ?P "[]" "''HOST''" "[]",
        THEN conjunct2, THEN conjunct2]
    by (simp add: HasPrefix_def HasSuffix_def)
  from 1 2 3 show ?thesis by simp
qed

text \<open>
  A value with a leading space: trimmed, it starts with \<open>{\<close>, ends with \<open>}\<close> and decodes as a
  JSON object (so does the untrimmed text), yet \<open>envTransform\<close> returns the string.
\<close>

theorem envTransform_trimmed_counterexample:
  \<open>HasPrefix (TrimSpace '' {"debug": true}'') ''{''
   \<and> HasSuffix (TrimSpace '' {"debug": true}'') ''}''
   \<and> json_object (example_sources into_map) (TrimSpace '' {"debug": true}'')
       = Some [(''debug'', VBool True)]
   \<and> json_object (example_sources into_map) '' {"debug": true}'' = Some [(''debug'', VBool True)]
   \<and> snd (envTransform (example_sources into_map) ''FEATURE_FLAGS'' '' {"debug": true}'')
       = VStr '' {"debug": true}''\<close>
proof -
  have t: \<open>TrimSpace '' {"debug": true}'' = ''{"debug": true}''\<close>
    by (simp add: TrimSpace_def is_space_def)
  show ?thesis
    unfolding t
    by (simp add: example_sources_def json_example_object json_example_padded
        envTransform_def HasPrefix_def HasSuffix_def)
qed


lemma merge_empty [simp]: "merge a [] = a"
proof -
  have "map (\<lambda>(k, v). (k, case v of VMap m \<Rightarrow> (case map_of [] k of Some (VMap m') \<Rightarrow> VMap (merge m m') | _ \<Rightarrow> v)
                       | _ \<Rightarrow> v)) a = a"
    by (rule map_idI) (auto split: val.splits)
  then show ?thesis by (subst merge.simps) simp
qed

lemma loadFromYAML_eq:
  "loadFromYAML P path k =
     (if path = [] then (None, k)
      else (case yaml_source P path of
              Inl e \<Rightarrow> (if errors_Is e ErrNotExist then None else Some (Errorf ''load yaml'' e),
                        k\<lparr>calls := calls k @ [Load_file path]\<rparr>)
            | Inr t \<Rightarrow> (None, k\<lparr>confMap := merge t (confMap k), calls := calls k @ [Load_file path]\<rparr>)))"
  by (simp add: loadFromYAML_def koanf_Load_def split: sum.splits)

lemma loadDotenv_eq:
  "loadDotenv P k =
     (case transformed P (dotenv_source P) of
        Inl e \<Rightarrow> (if errors_Is e ErrNotExist then None else Some (Errorf ''load dotenv'' e),
                  k\<lparr>calls := calls k @ [Load_file ''.env'']\<rparr>)
      | Inr t \<Rightarrow> (None, k\<lparr>confMap := merge t (confMap k), calls := calls k @ [Load_file ''.env'']\<rparr>))"
  by (simp add: loadDotenv_def koanf_Load_def split: sum.splits)

lemma loadEnv_eq:
  "loadEnv P k =
     (case transformed P (env_source P) of
        Inl e \<Rightarrow> (Some (Errorf ''load env'' e), k\<lparr>calls := calls k @ [Load_env]\<rparr>)
      | Inr t \<Rightarrow> (None, k\<lparr>confMap := merge t (confMap k), calls := calls k @ [Load_env]\<rparr>))"
  by (simp add: loadEnv_def koanf_Load_def split: sum.splits)


subsection \<open>The orchestrator\<close>

lemma yaml_stage:
  "loadFromYAML P path koanf_New =
     (map_option (Errorf ''load yaml'') (yaml_reports P path),
      \<lparr>confMap = yaml_defines P path, calls = yaml_calls path\<rparr>)"
  by (simp add: loadFromYAML_eq koanf_New_def yaml_reports_def yaml_defines_def yaml_calls_def
      split: sum.splits)

lemma dotenv_stage:
  "loadDotenv P k =
     (map_option (Errorf ''load dotenv'') (dotenv_reports P),
      k\<lparr>confMap := merge (dotenv_defines P) (confMap k), calls := calls k @ [Load_file ''.env'']\<rparr>)"
  by (simp add: loadDotenv_eq dotenv_reports_def dotenv_defines_def transformed_def
      split: sum.splits)

lemma env_stage:
  "loadEnv P k =
     (map_option (Errorf ''load env'') (env_reports P),
      k\<lparr>confMap := merge (env_defines P) (confMap k), calls := calls k @ [Load_env]\<rparr>)"
  by (simp add: loadEnv_eq env_reports_def env_defines_def transformed_def split: sum.splits)

lemma Load_yaml_error:
  "yaml_reports P (chosen_path opts) = Some e \<Longrightarrow>
     Load P c opts = (Some (Errorf ''load yaml'' e), c,
                      \<lparr>confMap = yaml_defines P (chosen_path opts), calls = yaml_calls (chosen_path opts)\<rparr>)"
  by (simp add: Load_def yaml_stage chosen_path_def)

lemma Load_dotenv_error:
  "yaml_reports P (chosen_path opts) = None \<Longrightarrow> dotenv_reports P = Some e \<Longrightarrow>
     Load P c opts = (Some (Errorf ''load dotenv'' e), c,
                      \<lparr>confMap = merge (dotenv_defines P) (yaml_defines P (chosen_path opts)),
                       calls = yaml_calls (chosen_path opts) @ [Load_file ''.env'']\<rparr>)"
  by (simp add: Load_def yaml_stage dotenv_stage chosen_path_def)

lemma Load_env_error:
  "yaml_reports P (chosen_path opts) = None \<Longrightarrow> dotenv_reports P = None \<Longrightarrow>
   env_reports P = Some e \<Longrightarrow>
     Load P c opts = (Some (Errorf ''load env'' e), c,
                      \<lparr>confMap = merged P (chosen_path opts),
                       calls = yaml_calls (chosen_path opts) @ [Load_file ''.env'', Load_env]\<rparr>)"
  by (simp add: Load_def yaml_stage dotenv_stage env_stage chosen_path_def merged_def)

lemma Load_materialize:
  "yaml_reports P (chosen_path opts) = None \<Longrightarrow> dotenv_reports P = None \<Longrightarrow>
   env_reports P = None \<Longrightarrow>
     Load P c opts =
       (map_option (Errorf ''unmarshal'') (fst (unmarshal P (merged P (chosen_path opts)) c)),
        snd (unmarshal P (merged P (chosen_path opts)) c),
        \<lparr>confMap = merged P (chosen_path opts),
         calls = yaml_calls (chosen_path opts) @ [Load_file ''.env'', Load_env, Unmarshal_conf]\<rparr>)"
  by (simp add: Load_def yaml_stage dotenv_stage env_stage chosen_path_def merged_def
      split: prod.splits option.splits)


lemma wrapped_error:
  "sublist tag (Error (Errorf tag cause)) \<and> Unwrap (Errorf tag cause) = Some cause
   \<and> errors_Is (Errorf tag cause) cause"
  by (cases cause) (simp_all add: sublist_Error_Errorf)

text \<open>
  C2. \<open>Load\<close> fails fast. The first stage that reports an error (for the two file stages: an
  error other than not-found) decides the result: the structured-file stage before any other
  call on \<open>k\<close>, the dotenv stage before the environment is read, the environment stage before
  the materializer runs, the materializer last. The target is untouched unless the materializer
  ran. Every error \<open>Load\<close> returns is one stage error: a stage tag wrapped around the cause, with
  the tag in the message and the cause reachable by \<open>errors.Unwrap\<close> and \<open>errors.Is\<close>.
\<close>

theorem Load_fail_fast:
  "(yaml_reports P (chosen_path opts) = Some e \<longrightarrow>
      Load P c opts = (Some (Errorf ''load yaml'' e), c,
                       \<lparr>confMap = [], calls = [Load_file (chosen_path opts)]\<rparr>))
   \<and> (yaml_reports P (chosen_path opts) = None \<and> dotenv_reports P = Some e \<longrightarrow>
        fst (Load P c opts) = Some (Errorf ''load dotenv'' e) \<and> fst (snd (Load P c opts)) = c
        \<and> Load_env \<notin> set (calls (snd (snd (Load P c opts))))
        \<and> Unmarshal_conf \<notin> set (calls (snd (snd (Load P c opts)))))
   \<and> (yaml_reports P (chosen_path opts) = None \<and> dotenv_reports P = None
        \<and> env_reports P = Some e \<longrightarrow>
        fst (Load P c opts) = Some (Errorf ''load env'' e) \<and> fst (snd (Load P c opts)) = c
        \<and> Unmarshal_conf \<notin> set (calls (snd (snd (Load P c opts)))))
   \<and> (yaml_reports P (chosen_path opts) = None \<and> dotenv_reports P = None
        \<and> env_reports P = None \<and> fst (unmarshal P (merged P (chosen_path opts)) c) = Some e \<longrightarrow>
        fst (Load P c opts) = Some (Errorf ''unmarshal'' e))
   \<and> (fst (Load P c opts) = Some err \<longrightarrow>
        (\<exists>tag cause. err = Errorf tag cause \<and> tag \<in> stage_tags \<and> sublist tag (Error err)
                      \<and> Unwrap err = Some cause \<and> errors_Is err cause))"
proof (intro conjI impI)
  assume y: "yaml_reports P (chosen_path opts) = Some e"
  then have "chosen_path opts \<noteq> []" "yaml_defines P (chosen_path opts) = []"
    by (auto simp: yaml_reports_def yaml_defines_def split: if_splits sum.splits)
  with Load_yaml_error [OF y, of c]
  show "Load P c opts = (Some (Errorf ''load yaml'' e), c,
                       \<lparr>confMap = [], calls = [Load_file (chosen_path opts)]\<rparr>)"
    by (simp add: yaml_calls_def)
next
  assume a: "yaml_reports P (chosen_path opts) = None \<and> dotenv_reports P = Some e"
  then have L: "Load P c opts = (Some (Errorf ''load dotenv'' e), c,
                      \<lparr>confMap = merge (dotenv_defines P) (yaml_defines P (chosen_path opts)),
                       calls = yaml_calls (chosen_path opts) @ [Load_file ''.env'']\<rparr>)"
    by (simp add: Load_dotenv_error)
  show "fst (Load P c opts) = Some (Errorf ''load dotenv'' e)" by (simp add: L)
  show "fst (snd (Load P c opts)) = c" by (simp add: L)
  show "Load_env \<notin> set (calls (snd (snd (Load P c opts))))" by (simp add: L yaml_calls_def)
  show "Unmarshal_conf \<notin> set (calls (snd (snd (Load P c opts))))" by (simp add: L yaml_calls_def)
next
  assume a: "yaml_reports P (chosen_path opts) = None \<and> dotenv_reports P = None
        \<and> env_reports P = Some e"
  then have L: "Load P c opts = (Some (Errorf ''load env'' e), c,
                      \<lparr>confMap = merged P (chosen_path opts),
                       calls = yaml_calls (chosen_path opts) @ [Load_file ''.env'', Load_env]\<rparr>)"
    by (simp add: Load_env_error)
  show "fst (Load P c opts) = Some (Errorf ''load env'' e)" by (simp add: L)
  show "fst (snd (Load P c opts)) = c" by (simp add: L)
  show "Unmarshal_conf \<notin> set (calls (snd (snd (Load P c opts))))" by (simp add: L yaml_calls_def)
next
  assume a: "yaml_reports P (chosen_path opts) = None \<and> dotenv_reports P = None
        \<and> env_reports P = None \<and> fst (unmarshal P (merged P (chosen_path opts)) c) = Some e"
  then show "fst (Load P c opts) = Some (Errorf ''unmarshal'' e)"
    by (simp add: Load_materialize)
next
  assume f: "fst (Load P c opts) = Some err"
  have "\<exists>tag cause. err = Errorf tag cause \<and> tag \<in> stage_tags"
  proof (cases "yaml_reports P (chosen_path opts)")
    case (Some e1)
    with f show ?thesis by (auto simp: Load_yaml_error stage_tags_def)
  next
    case y: None
    show ?thesis
    proof (cases "dotenv_reports P")
      case (Some e2)
      with f y show ?thesis by (auto simp: Load_dotenv_error stage_tags_def)
    next
      case d: None
      show ?thesis
      proof (cases "env_reports P")
        case (Some e3)
        with f y d show ?thesis by (auto simp: Load_env_error stage_tags_def)
      next
        case None
        with f y d show ?thesis by (auto simp: Load_materialize stage_tags_def)
      qed
    qed
  qed
  then obtain tag cause where "err = Errorf tag cause" "tag \<in> stage_tags" by blast
  then show "\<exists>tag cause. err = Errorf tag cause \<and> tag \<in> stage_tags \<and> sublist tag (Error err)
                      \<and> Unwrap err = Some cause \<and> errors_Is err cause"
    using wrapped_error [of tag cause] by blast
qed

lemma apply_empty_path: "options_apply new_options [WithLocalYAML []] = new_options"
  by (simp add: options_apply_def WithLocalYAML_def new_options_def)

text \<open>
  C9. \<open>WithLocalYAML("")\<close> leaves the options at their default, so \<open>Load\<close> with it is \<open>Load\<close>
  with no option at all; on the empty path the structured-file stage returns at once, with \<open>k\<close>
  (tree and calls) unchanged.
\<close>

theorem WithLocalYAML_empty:
  "Load P c [WithLocalYAML ''''] = Load P c []
   \<and> options_apply new_options [WithLocalYAML ''''] = options_apply new_options []
   \<and> loadFromYAML P '''' k = (None, k)"
proof -
  have o: "options_apply new_options [WithLocalYAML ''''] = options_apply new_options []"
    by (simp add: options_apply_def WithLocalYAML_def new_options_def)
  have "Load P c [WithLocalYAML ''''] = Load P c []"
    by (simp only: Load_def o)
  moreover have "loadFromYAML P '''' k = (None, k)"
    by (simp add: loadFromYAML_def)
  ultimately show ?thesis using o by simp
qed

lemma chosen_path_WithLocalYAML [simp]: "chosen_path [WithLocalYAML p] = p"
  by (simp add: chosen_path_def options_apply_def WithLocalYAML_def new_options_def)

lemma chosen_path_Nil [simp]: "chosen_path [] = []"
  by (simp add: chosen_path_def options_apply_def new_options_def)



subsection \<open>Precedence\<close>



subsection \<open>The materializer\<close>





theorem Load_fail_fast_witness:
  "Load (example_sources into_map) [] [WithLocalYAML ''invalid.yaml'']
     = (Some (Errorf ''load yaml'' (New ''yaml: did not find expected node content'')), [],
        \<lparr>confMap = [], calls = [Load_file ''invalid.yaml'']\<rparr>)
   \<and> fst (Load broken_dotenv [] [])
       = Some (Errorf ''load dotenv'' (New ''unexpected character in variable name''))
   \<and> fst (Load broken_env [] []) = Some (Errorf ''load env'' (New ''environment unavailable''))
   \<and> fst (Load bad_port_sources TestConfig [])
       = Some (Errorf ''unmarshal'' (New ''cannot parse http as int''))
   \<and> sublist ''unmarshal'' (Error (Errorf ''unmarshal'' (New ''cannot parse http as int'')))"
proof -
  let ?P = "example_sources into_map :: tree platform"
  have y: "yaml_reports ?P (chosen_path [WithLocalYAML ''invalid.yaml''])
             = Some (New ''yaml: did not find expected node content'')"
    by code_simp
  have d: "yaml_reports broken_dotenv (chosen_path []) = None"
    "dotenv_reports broken_dotenv = Some (New ''unexpected character in variable name'')"
    by code_simp+
  have e: "yaml_reports broken_env (chosen_path []) = None" "dotenv_reports broken_env = None"
    "env_reports broken_env = Some (New ''environment unavailable'')"
    by code_simp+
  have u: "yaml_reports bad_port_sources (chosen_path []) = None"
    "dotenv_reports bad_port_sources = None" "env_reports bad_port_sources = None"
    "fst (unmarshal bad_port_sources (merged bad_port_sources (chosen_path [])) TestConfig)
       = Some (New ''cannot parse http as int'')"
    by code_simp+
  from Load_fail_fast [of ?P "[WithLocalYAML ''invalid.yaml'']"
      "New ''yaml: did not find expected node content''" "[]", THEN conjunct1] y
  have 1: "Load ?P [] [WithLocalYAML ''invalid.yaml'']
     = (Some (Errorf ''load yaml'' (New ''yaml: did not find expected node content'')), [],
        \<lparr>confMap = [], calls = [Load_file ''invalid.yaml'']\<rparr>)"
    by simp
  from Load_fail_fast [of broken_dotenv "[]" "New ''unexpected character in variable name''" "[]",
      THEN conjunct2, THEN conjunct1] d
  have 2: "fst (Load broken_dotenv [] [])
       = Some (Errorf ''load dotenv'' (New ''unexpected character in variable name''))"
    by simp
  from Load_fail_fast [of broken_env "[]" "New ''environment unavailable''" "[]",
      THEN conjunct2, THEN conjunct2, THEN conjunct1] e
  have 3: "fst (Load broken_env [] []) = Some (Errorf ''load env'' (New ''environment unavailable''))"
    by simp
  from Load_fail_fast [of bad_port_sources "[]" "New ''cannot parse http as int''" TestConfig,
      THEN conjunct2, THEN conjunct2, THEN conjunct2, THEN conjunct1] u
  have 4: "fst (Load bad_port_sources TestConfig [])
       = Some (Errorf ''unmarshal'' (New ''cannot parse http as int''))"
    by simp
  from Load_fail_fast [of bad_port_sources "[]" "New ''cannot parse http as int''" TestConfig
      "Errorf ''unmarshal'' (New ''cannot parse http as int'')",
      THEN conjunct2, THEN conjunct2, THEN conjunct2, THEN conjunct2] 4
  have 5: "sublist ''unmarshal'' (Error (Errorf ''unmarshal'' (New ''cannot parse http as int'')))"
    by auto
  from 1 2 3 4 5 show ?thesis by simp
qed




end
